theory Spec2Isabelle
  imports Main "HOL-Library.Word"
begin

section \<open>Standard-library functions the service calls\<close>

text \<open>
  Go strings are byte sequences; a \<^typ>\<open>string\<close> here is the list of the bytes of the Go
  string (UTF-8 wherever the text is not ASCII).  A Go \<open>error\<close> value is modelled by its
  message: \<open>None\<close> is \<open>nil\<close>, \<open>Some m\<close> is an error whose \<open>Error()\<close> is \<open>m\<close>.
\<close>

type_synonym go_error = "string option"

subsection \<open>\<open>strings.TrimSpace\<close>\<close>

text \<open>
  \<open>strings.TrimSpace\<close> removes the leading and the trailing runes for which
  \<open>unicode.IsSpace\<close> holds.  These are the six ASCII characters tab, line feed, vertical tab,
  form feed, carriage return and blank, and the code points U+0085, U+00A0, U+1680,
  U+2000 to U+200A, U+2028, U+2029, U+202F, U+205F and U+3000, listed below in their UTF-8
  encoding.  No encoding in the list is a prefix or a suffix of another one.
\<close>

definition space_encodings :: "string list" where
  "space_encodings =
     [[CHR 0x09], [CHR 0x0A], [CHR 0x0B], [CHR 0x0C], [CHR 0x0D], [CHR 0x20],
      [CHR 0xC2, CHR 0x85], [CHR 0xC2, CHR 0xA0],
      [CHR 0xE1, CHR 0x9A, CHR 0x80],
      [CHR 0xE2, CHR 0x80, CHR 0x80], [CHR 0xE2, CHR 0x80, CHR 0x81],
      [CHR 0xE2, CHR 0x80, CHR 0x82], [CHR 0xE2, CHR 0x80, CHR 0x83],
      [CHR 0xE2, CHR 0x80, CHR 0x84], [CHR 0xE2, CHR 0x80, CHR 0x85],
      [CHR 0xE2, CHR 0x80, CHR 0x86], [CHR 0xE2, CHR 0x80, CHR 0x87],
      [CHR 0xE2, CHR 0x80, CHR 0x88], [CHR 0xE2, CHR 0x80, CHR 0x89],
      [CHR 0xE2, CHR 0x80, CHR 0x8A],
      [CHR 0xE2, CHR 0x80, CHR 0xA8], [CHR 0xE2, CHR 0x80, CHR 0xA9],
      [CHR 0xE2, CHR 0x80, CHR 0xAF],
      [CHR 0xE2, CHR 0x81, CHR 0x9F],
      [CHR 0xE3, CHR 0x80, CHR 0x80]]"

text \<open>The number of bytes of the white-space rune a string starts with, 0 when there is none.\<close>

definition leading_space :: "string list \<Rightarrow> string \<Rightarrow> nat" where
  "leading_space encs s =
     (case find (\<lambda>e. take (length e) s = e) encs of None \<Rightarrow> 0 | Some e \<Rightarrow> length e)"

fun TrimLeft :: "string list \<Rightarrow> string \<Rightarrow> string" where
  "TrimLeft encs [] = []"
| "TrimLeft encs (c # cs) =
     (if leading_space encs (c # cs) = 0 then c # cs
      else TrimLeft encs (drop (leading_space encs (c # cs) - 1) cs))"

text \<open>
  Trimming on the right is trimming the reversed string on the left, with every encoding
  reversed.
\<close>

definition TrimSpace :: "string \<Rightarrow> string" where
  "TrimSpace s =
     rev (TrimLeft (map rev space_encodings) (rev (TrimLeft space_encodings s)))"

subsection \<open>Formatting with \<open>fmt\<close>\<close>

text \<open>
  Decimal digits of a number that is not negative, as \<open>%d\<close> and \<open>time.fmtInt\<close> print
  them.
\<close>

function digits :: "int \<Rightarrow> string" where
  "digits n =
     (if n < 10 then [''0123456789'' ! nat n]
      else digits (n div 10) @ [''0123456789'' ! nat (n mod 10)])"
  by pat_completeness auto
termination
  by (relation "measure nat") auto

declare digits.simps [simp del]

text \<open>The verb \<open>%d\<close> on a Go \<open>int\<close>.\<close>

definition fmt_d :: "int \<Rightarrow> string" where
  "fmt_d i = (if i < 0 then CHR ''-'' # digits (- i) else digits i)"

text \<open>
  A width pads on the left with blanks; \<open>fmt\<close> counts the width in runes, that is in the
  bytes that are not UTF-8 continuation bytes (0x80 to 0xBF).
\<close>

definition RuneCount :: "string \<Rightarrow> nat" where
  "RuneCount s = length (filter (\<lambda>c. of_char c < (0x80 :: nat) \<or> (0xC0 :: nat) \<le> of_char c) s)"

definition pad :: "nat \<Rightarrow> string \<Rightarrow> string" where
  "pad width s = replicate (width - RuneCount s) CHR '' '' @ s"

text \<open>The verb \<open>%s\<close> on a \<open>[]string\<close>: the elements between brackets, separated by blanks.\<close>

fun join_blank :: "string list \<Rightarrow> string" where
  "join_blank [] = []"
| "join_blank [x] = x"
| "join_blank (x # y # ys) = x @ CHR '' '' # join_blank (y # ys)"

definition fmt_s_strings :: "string list \<Rightarrow> string" where
  "fmt_s_strings xs = CHR ''['' # join_blank xs @ '']''"

text \<open>The verb \<open>%s\<close> on an \<open>error\<close>: its message, and \<open>%!s(<nil>)\<close> for \<open>nil\<close>.\<close>

definition fmt_s_error :: "go_error \<Rightarrow> string" where
  "fmt_s_error err = (case err of None \<Rightarrow> ''%!s(<nil>)'' | Some m \<Rightarrow> m)"

subsection \<open>\<open>time.Duration.String\<close>\<close>

text \<open>
  A \<open>time.Duration\<close> is a number of nanoseconds.  \<open>fmtFrac\<close> prints the \<open>prec\<close> low decimal
  digits of \<open>v\<close> as a fraction in front of the text already written, without trailing zeros
  and without the point when they are all zero, and returns \<open>v / 10^prec\<close>.
\<close>

fun fmtFrac :: "nat \<Rightarrow> int \<Rightarrow> bool \<Rightarrow> string \<Rightarrow> string \<times> int" where
  "fmtFrac 0 v print buf = (if print then CHR ''.'' # buf else buf, v)"
| "fmtFrac (Suc i) v print buf =
     (if print then fmtFrac i (v div 10) True ((''0123456789'' ! nat (v mod 10)) # buf)
      else if v mod 10 = 0 then fmtFrac i (v div 10) False buf
      else fmtFrac i (v div 10) True ((''0123456789'' ! nat (v mod 10)) # buf))"

text \<open>
  Below one second the unit is ns, the micro sign (bytes 0xC2 0xB5) followed by s, or ms;
  from one second on the text is hours, minutes and seconds, the larger units left out
  while they are zero.
\<close>

definition Duration_String :: "int \<Rightarrow> string" where
  "Duration_String d =
     (let u = \<bar>d\<bar>;
          sign = (if d < 0 then ''-'' else '''')
      in if u < 1000000000 then
           (if u = 0 then ''0s''
            else if u < 1000 then sign @ digits u @ ''ns''
            else if u < 1000000 then
              (case fmtFrac 3 u False [CHR 0xC2, CHR 0xB5, CHR ''s''] of
                 (buf, u') \<Rightarrow> sign @ digits u' @ buf)
            else
              (case fmtFrac 6 u False ''ms'' of (buf, u') \<Rightarrow> sign @ digits u' @ buf))
         else
           (case fmtFrac 9 u False ''s'' of
              (buf, secs) \<Rightarrow>
                (let s = digits (secs mod 60) @ buf;
                     mins = secs div 60
                 in if mins > 0 then
                      (let m = digits (mins mod 60) @ CHR ''m'' # s;
                           hours = mins div 60
                       in if hours > 0 then sign @ digits hours @ CHR ''h'' # m else sign @ m)
                    else sign @ s)))"

section \<open>The data of the service\<close>

record Configuration =
  PWVHost :: string
  PWVCLIPasswordSDK_CMD :: string
  PWVCLIPasswordSDK_CMD_timeout :: "64 word"
  PWVWSUAccountName :: string
  PWVUnmanagedSafe :: string
  PWVUnmanagedPlatformID :: string
  PWVManagedPlatformID :: string
  PWVWSUSafe :: string
  PWVAppID :: string
  PWVUsername :: string
  PWVManagedSafe :: string
  RouterAddress :: string
  RouterSocket :: "16 word"

text \<open>\<open>elapsed\<close> is a \<open>time.Duration\<close>, in nanoseconds.\<close>

record Result =
  ok :: bool
  stdout :: string
  stderr :: string
  exit_code :: int
  elapsed :: int

text \<open>The zero value of \<open>Result\<close>, which \<open>var r Result\<close> and the named result \<open>r\<close> start with.\<close>

definition Result_zero :: Result where
  "Result_zero = \<lparr>ok = False, stdout = [], stderr = [], exit_code = 0, elapsed = 0\<rparr>"

text \<open>
  The values of a \<open>gin.H\<close>, as \<open>encoding/json\<close> writes them: \<open>nil\<close> is \<open>null\<close>, a string is a JSON
  string, and an error value of package \<open>errors\<close> (a struct without exported fields) is the
  empty object.  A \<open>gin.H\<close> literal is the list of its entries.
\<close>

datatype json = JNull | JString string | JEmptyObject

type_synonym H = "(string \<times> json) list"

definition json_of_error :: "go_error \<Rightarrow> json" where
  "json_of_error err = (case err of None \<Rightarrow> JNull | Some m \<Rightarrow> JEmptyObject)"

section \<open>What the operating system does during one invocation\<close>

text \<open>
  \<open>cmd.Wait()\<close> returns \<open>nil\<close>, an \<open>*exec.ExitError\<close> (the child exited with a status other than
  0, or was ended by a signal; \<open>ExitError st m\<close> has \<open>WaitStatus.ExitStatus() = st\<close>, which is
  \<open>-1\<close> after a signal, and message \<open>m\<close>), or another error with message \<open>m\<close>.
\<close>

datatype wait_error = ExitError int string | OtherError string

fun wait_error_message :: "wait_error \<Rightarrow> string" where
  "wait_error_message (ExitError st m) = m"
| "wait_error_message (OtherError m) = m"

text \<open>
  The \<open>select\<close> statement takes exactly one of its two cases: the timer (then
  \<open>cmd.Process.Kill()\<close> is called, and returns the error given here), or the channel \<open>done\<close>
  (then the value received is what \<open>cmd.Wait()\<close> returned).
\<close>

datatype select_case = TimeAfter go_error | Done "wait_error option"

text \<open>
  One run of the child: what \<open>cmd.Start()\<close> returns, what the child has written to the two
  buffers when they are read, which case of the \<open>select\<close> is taken, and what
  \<open>time.Since(start)\<close> returns.
\<close>

record child =
  start_err :: go_error
  out_buf :: string
  err_buf :: string
  chosen :: select_case
  since_start :: int

text \<open>
  When \<open>cmd.Start()\<close> has failed, \<open>cmd.Process\<close> is \<open>nil\<close>: \<open>cmd.Wait()\<close> then returns the error
  \<open>exec: not started\<close> at once, and \<open>cmd.Process.Kill()\<close> dereferences \<open>nil\<close> and panics.
\<close>

definition cmd_Wait :: "child \<Rightarrow> wait_error option \<Rightarrow> wait_error option" where
  "cmd_Wait ch received =
     (case start_err ch of
        None \<Rightarrow> received
      | Some e \<Rightarrow> Some (OtherError ''exec: not started''))"

datatype panic = NilPointerDereference

text \<open>
  The effects a request leaves behind: the lines given to package \<open>log\<close> (the writer
  \<open>logWriter\<close> puts \<open>[PWV]\<close> and the time in front of each), and the argument vectors
  \<open>cmd.Args\<close> of the commands on which \<open>Start\<close> was called.
\<close>

record world =
  logged :: "string list"
  started :: "string list list"

definition log_Print :: "string \<Rightarrow> world \<Rightarrow> world" where
  "log_Print line w = w\<lparr>logged := logged w @ [line]\<rparr>"

definition cmd_Start :: "string list \<Rightarrow> world \<Rightarrow> world" where
  "cmd_Start args w = w\<lparr>started := started w @ [args]\<rparr>"

section \<open>The validator of account names\<close>

text \<open>
  \<open>isValidAccount_name\<close> is \<open>MatchString\<close> of the regular expression \<open>^[0-9a-zA-Z-_]+$\<close>.  In
  Go's syntax the class holds the three ranges, the hyphen and the underscore, and \<open>$\<close>
  matches at the end of the text only.  A byte from 0x80 on is never in the class, so the
  match can be read byte by byte.
\<close>

definition in_range :: "char \<Rightarrow> char \<Rightarrow> char \<Rightarrow> bool" where
  "in_range lo hi c = ((of_char lo :: nat) \<le> of_char c \<and> (of_char c :: nat) \<le> of_char hi)"

definition account_char :: "char \<Rightarrow> bool" where
  "account_char c =
     (in_range CHR ''0'' CHR ''9'' c \<or> in_range CHR ''a'' CHR ''z'' c \<or>
      in_range CHR ''A'' CHR ''Z'' c \<or> c = CHR ''-'' \<or> c = CHR ''_'')"

definition isValidAccount_name :: "string \<Rightarrow> bool" where
  "isValidAccount_name s = (s \<noteq> [] \<and> list_all account_char s)"

text \<open>
  The class of characters of an account name as the specification writes it,
  \<open>[0-9a-zA-Z_-]\<close>, character by character.
\<close>

definition spec_account_alphabet :: string where
  "spec_account_alphabet =
     ''0123456789abcdefghijklmnopqrstuvwxyzABCDEFGHIJKLMNOPQRSTUVWXYZ_-''"

section \<open>\<open>PWVCLICMD\<close>: running the vault CLI\<close>

definition pwv_args :: "string \<Rightarrow> string \<Rightarrow> string \<Rightarrow> string list" where
  "pwv_args pwv_appID pwv_safe account_name =
     [''GetPassword'',
      ''-p'', ''AppDescs.AppID='' @ pwv_appID,
      ''-p'', ''Query=Safe='' @ pwv_safe @ '';Folder=root;Object='' @ account_name,
      ''-o'', ''Password'']"

text \<open>\<open>exec.Command(name, arg...)\<close> sets \<open>cmd.Args\<close> to the name followed by the arguments.\<close>

definition exec_Command :: "string \<Rightarrow> string list \<Rightarrow> string list" where
  "exec_Command name arg = name # arg"

text \<open>The last statements of \<open>PWVCLICMD\<close>, which both cases of the \<open>select\<close> reach.\<close>

definition capture :: "child \<Rightarrow> Result \<Rightarrow> Result" where
  "capture ch r =
     r\<lparr>stdout := TrimSpace (out_buf ch), stderr := TrimSpace (err_buf ch),
       elapsed := since_start ch\<rparr>"

text \<open>
  The function has the named results \<open>r\<close> and \<open>err\<close>, and \<open>err\<close> is \<open>nil\<close> at the start.  The
  result of \<open>cmd.Start()\<close> is dropped.  Two statements declare a variable \<open>err\<close> of their own,
  which hides the named result inside them:
  \<^item> \<open>if err := cmd.Process.Kill(); err != nil { err = ... }\<close> assigns to the variable of the
    \<open>if\<close> (\<open>err_kill\<close> below); the statement after it assigns the time-out error to the named
    result;
  \<^item> \<open>case err := <-done:\<close> declares the variable of the case (\<open>err_done\<close> below), and
    \<open>err = errors.New(...)\<close> inside the case assigns to that variable, so the named result
    keeps the value \<open>nil\<close>.
  The argument \<open>time_out\<close> only sets the timer; which case the \<open>select\<close> takes is in \<open>chosen\<close>.
\<close>

definition PWVCLICMD ::
  "64 word \<Rightarrow> string \<Rightarrow> string \<Rightarrow> string \<Rightarrow> string \<Rightarrow> child \<Rightarrow> world
     \<Rightarrow> (panic + Result \<times> go_error) \<times> world" where
  "PWVCLICMD time_out pwv_cmd pwv_appID pwv_safe account_name ch w =
     (let r = Result_zero\<lparr>ok := False\<rparr>;
          err = None;
          cmd_Args = exec_Command pwv_cmd (pwv_args pwv_appID pwv_safe account_name);
          w1 = log_Print (''Exec: '' @ fmt_s_strings cmd_Args) w;
          w2 = cmd_Start cmd_Args w1
      in case chosen ch of
           TimeAfter killed \<Rightarrow>
             (case start_err ch of
                Some e \<Rightarrow> (Inl NilPointerDereference, w2)
              | None \<Rightarrow>
                  (let err_kill =
                         (case killed of
                            None \<Rightarrow> None
                          | Some m \<Rightarrow> Some (''failed to kill: '' @ m));
                       err = Some ''process killed as timeout reached''
                   in (Inr (capture ch r, err), w2)))
         | Done received \<Rightarrow>
             (let err_done = cmd_Wait ch received;
                  r = (case err_done of
                         Some (ExitError st m) \<Rightarrow> r\<lparr>exit_code := st\<rparr>
                       | _ \<Rightarrow> r)
              in case err_done of
                   Some e \<Rightarrow>
                     (let err_done =
                            Some (''process done with error = '' @ wait_error_message e)
                      in (Inr (capture ch r, err), w2))
                 | None \<Rightarrow> (Inr (capture ch (r\<lparr>ok := True\<rparr>), err), w2)))"

section \<open>The handler of \<open>GET /fetch/:safe/:account_name\<close>\<close>

definition msg_safe :: string where
  "msg_safe =
     ''Please specify a valid safe either '' @ [CHR 0x22] @ ''managed'' @ [CHR 0x22] @
     '' or '' @ [CHR 0x22] @ ''unmanaged'' @ [CHR 0x22]"

definition msg_account_name :: string where
  "msg_account_name = ''Please specify a valid account_name''"

text \<open>The \<open>switch\<close> on the path parameter \<open>safe\<close>; \<open>pwv_safe\<close> stays empty without a match.\<close>

definition switch_safe :: "Configuration \<Rightarrow> string \<Rightarrow> string" where
  "switch_safe cfg safe =
     (if safe = ''managed'' then PWVManagedSafe cfg
      else if safe = ''unmanaged'' then PWVUnmanagedSafe cfg
      else [])"

text \<open>The line written at the label \<open>Response\<close>.\<close>

definition audit_line :: "Result \<Rightarrow> go_error \<Rightarrow> string" where
  "audit_line r err =
     (if ok r then
        ''|'' @ pad 4 (fmt_d (exit_code r)) @ '' |'' @ pad 14 (Duration_String (elapsed r)) @
        '' | SUCCESS | STDOUT: '' @ replicate (length (stdout r)) CHR ''*'' @
        '', STDERR: '' @ stderr r
      else
        ''|'' @ pad 4 (fmt_d (exit_code r)) @ '' |'' @ pad 14 (Duration_String (elapsed r)) @
        '' | FAILED  | STDOUT: '' @ stdout r @ '', STDERR: '' @ stderr r @
        '', ERROR: '' @ fmt_s_error err)"

text \<open>The label \<open>Response\<close>: the audit line, then \<open>c.JSON(status_code, result)\<close>.\<close>

definition Response ::
  "Result \<Rightarrow> go_error \<Rightarrow> int \<Rightarrow> H \<Rightarrow> world \<Rightarrow> (panic + int \<times> H) \<times> world" where
  "Response r err status_code result w =
     (Inr (status_code, result), log_Print (audit_line r err) w)"

text \<open>
  The part of the handler after \<open>PWVCLICMD\<close> has returned: the two tests with
  \<open>goto Response\<close>, and the success response.
\<close>

definition classify :: "Result \<Rightarrow> go_error \<Rightarrow> int \<times> H" where
  "classify r err =
     (case err of
        Some m \<Rightarrow>
          (424,
           [(''result'', JString (stdout r)),
            (''error'', JString (''The process did NOT run successfully '' @ m)),
            (''stderr'', JString (stderr r))])
      | None \<Rightarrow>
          if exit_code r > 0 then
            (424,
             [(''result'', JString (stdout r)),
              (''error'',
               JString (''According the return code ['' @ fmt_d (exit_code r) @
                        ''] the process did NOT run successfully'')),
              (''stderr'', JString (stderr r))])
          else
            (200,
             [(''result'', JString (stdout r)),
              (''error'', json_of_error err),
              (''stderr'', JString (stderr r))]))"

definition handler ::
  "Configuration \<Rightarrow> string \<Rightarrow> string \<Rightarrow> child \<Rightarrow> world \<Rightarrow> (panic + int \<times> H) \<times> world" where
  "handler cfg safe account_name ch w =
     (let r = Result_zero;
          err = None;
          pwv_safe = switch_safe cfg safe
      in if pwv_safe = [] then
           (let msg = msg_safe;
                w1 = log_Print msg w
            in Response r err 400
                 [(''result'', JNull), (''error'', JString msg), (''stderr'', JNull)] w1)
         else if isValidAccount_name account_name \<noteq> True then
           (let msg = msg_account_name;
                w1 = log_Print msg w
            in Response r err 400
                 [(''result'', JNull), (''error'', JString msg), (''stderr'', JNull)] w1)
         else
           (case PWVCLICMD (PWVCLIPasswordSDK_CMD_timeout cfg) (PWVCLIPasswordSDK_CMD cfg)
                   (PWVAppID cfg) pwv_safe account_name ch w of
              (Inl p, w1) \<Rightarrow> (Inl p, w1)
            | (Inr (r, err), w1) \<Rightarrow>
                (case classify r err of
                   (status_code, result) \<Rightarrow> Response r err status_code result w1)))"

text \<open>
  The router is \<open>gin.Default()\<close>, which runs every handler under gin's \<open>Recovery\<close>
  middleware: a panic of the handler is recovered there and answered with status 500 and
  no body.
\<close>

definition Recovery :: "(panic + int \<times> H) \<Rightarrow> int \<times> H option" where
  "Recovery x = (case x of Inl p \<Rightarrow> (500, None) | Inr (status_code, result) \<Rightarrow> (status_code, Some result))"

definition serve ::
  "Configuration \<Rightarrow> string \<Rightarrow> string \<Rightarrow> child \<Rightarrow> world \<Rightarrow> (int \<times> H option) \<times> world" where
  "serve cfg safe account_name ch w =
     (case handler cfg safe account_name ch w of (x, w1) \<Rightarrow> (Recovery x, w1))"

section \<open>Example configuration and example runs\<close>

text \<open>A configuration with both safes set, and the state before a request.\<close>

definition cfg_example :: Configuration where
  "cfg_example =
     \<lparr>PWVHost = ''vault.example.org'', PWVCLIPasswordSDK_CMD = ''/opt/pwv/clipasswordsdk'',
      PWVCLIPasswordSDK_CMD_timeout = 20000, PWVWSUAccountName = [],
      PWVUnmanagedSafe = ''SafeU'', PWVUnmanagedPlatformID = [],
      PWVManagedPlatformID = [], PWVWSUSafe = [], PWVAppID = ''app1'',
      PWVUsername = [], PWVManagedSafe = ''SafeM'', RouterAddress = ''127.0.0.1'',
      RouterSocket = 3000\<rparr>"

definition world_empty :: world where
  "world_empty = \<lparr>logged = [], started = []\<rparr>"

text \<open>
  The child prints the secret and a line feed and exits with status 0 after 1.5 ms; it
  prints four bytes and is still running when the timer fires after 20 s, and the kill
  fails; the executable is missing, and the channel case is taken; the executable is
  missing, and the timer case is taken; it prints to both streams and exits with status 1.
\<close>

definition child_succeeds :: child where
  "child_succeeds =
     \<lparr>start_err = None, out_buf = ''s3cr3t'' @ [CHR 0x0A], err_buf = [],
      chosen = Done None, since_start = 1500000\<rparr>"

definition child_hangs :: child where
  "child_hangs =
     \<lparr>start_err = None, out_buf = ''s3cr'', err_buf = [],
      chosen = TimeAfter (Some ''os: process already finished''),
      since_start = 20000123456\<rparr>"

definition child_not_started :: child where
  "child_not_started =
     \<lparr>start_err = Some ''fork/exec /opt/pwv/clipasswordsdk: no such file or directory'',
      out_buf = [], err_buf = [],
      chosen = Done (Some (OtherError ''exec: not started'')), since_start = 250000\<rparr>"

definition child_not_started_timer :: child where
  "child_not_started_timer =
     \<lparr>start_err = Some ''fork/exec /opt/pwv/clipasswordsdk: no such file or directory'',
      out_buf = [], err_buf = [],
      chosen = TimeAfter None, since_start = 1000250\<rparr>"

definition child_exits_1 :: child where
  "child_exits_1 =
     \<lparr>start_err = None, out_buf = ''s3cr3t'' @ [CHR 0x0A], err_buf = ''denied'' @ [CHR 0x0A],
      chosen = Done (Some (ExitError 1 ''exit status 1'')), since_start = 1500000\<rparr>"

section \<open>Unfolding\<close>

lemmas run_defs = PWVCLICMD_def capture_def cmd_Wait_def cmd_Start_def log_Print_def
  exec_Command_def Result_zero_def Let_def

lemmas handler_defs = handler_def Response_def classify_def json_of_error_def

section \<open>Lemmas about the validator, the runner and the handler\<close>

text \<open>The ranges of the regular expression hold the same characters as the written class.\<close>

lemma account_char_alphabet: "account_char c \<longleftrightarrow> c \<in> set spec_account_alphabet"
proof (cases c)
  case (Char b0 b1 b2 b3 b4 b5 b6 b7)
  then show ?thesis
    by (cases b0; cases b1; cases b2; cases b3; cases b4; cases b5; cases b6; cases b7;
        simp add: account_char_def in_range_def spec_account_alphabet_def)
qed

lemma not_valid_account_name:
  assumes "a = [] \<or> (\<exists>c \<in> set a. c \<notin> set spec_account_alphabet)"
  shows "\<not> isValidAccount_name a"
  using assms by (auto simp add: isValidAccount_name_def account_char_alphabet list_all_iff)

text \<open>Whatever the child does, \<open>PWVCLICMD\<close> logs the command and starts it once.\<close>

lemma PWVCLICMD_world:
  "snd (PWVCLICMD t cmd app s a ch w) =
     w\<lparr>logged := logged w @ [''Exec: '' @ fmt_s_strings (cmd # pwv_args app s a)],
       started := started w @ [cmd # pwv_args app s a]\<rparr>"
  by (simp add: run_defs split: select_case.splits option.splits wait_error.splits)

text \<open>The two ways through the handler: rejecting the request, and running the command.\<close>

lemma handler_rejects:
  assumes "switch_safe cfg safe = [] \<or> \<not> isValidAccount_name a"
  shows "handler cfg safe a ch w =
           (Inr (400, [(''result'', JNull),
                       (''error'', JString (if switch_safe cfg safe = [] then msg_safe
                                            else msg_account_name)),
                       (''stderr'', JNull)]),
            w\<lparr>logged := logged w @
                  [if switch_safe cfg safe = [] then msg_safe else msg_account_name,
                   audit_line Result_zero None]\<rparr>)"
  using assms by (auto simp add: handler_defs run_defs)

lemma handler_invokes:
  assumes "switch_safe cfg safe \<noteq> []" and "isValidAccount_name a"
  shows "handler cfg safe a ch w =
           (case PWVCLICMD (PWVCLIPasswordSDK_CMD_timeout cfg) (PWVCLIPasswordSDK_CMD cfg)
                   (PWVAppID cfg) (switch_safe cfg safe) a ch w of
              (Inl p, w1) \<Rightarrow> (Inl p, w1)
            | (Inr (r, err), w1) \<Rightarrow>
                (Inr (classify r err), log_Print (audit_line r err) w1))"
  using assms by (auto simp add: handler_def Response_def Let_def split: prod.splits sum.splits)

lemma handler_started:
  assumes "switch_safe cfg safe \<noteq> []" and "isValidAccount_name a"
  shows "started (snd (handler cfg safe a ch w)) =
           started w @
           [PWVCLIPasswordSDK_CMD cfg # pwv_args (PWVAppID cfg) (switch_safe cfg safe) a]"
proof -
  obtain x w1 where run:
    "PWVCLICMD (PWVCLIPasswordSDK_CMD_timeout cfg) (PWVCLIPasswordSDK_CMD cfg)
       (PWVAppID cfg) (switch_safe cfg safe) a ch w = (x, w1)"
    by (cases "PWVCLICMD (PWVCLIPasswordSDK_CMD_timeout cfg) (PWVCLIPasswordSDK_CMD cfg)
       (PWVAppID cfg) (switch_safe cfg safe) a ch w")
  have "w1 = snd (PWVCLICMD (PWVCLIPasswordSDK_CMD_timeout cfg) (PWVCLIPasswordSDK_CMD cfg)
       (PWVAppID cfg) (switch_safe cfg safe) a ch w)"
    by (simp add: run)
  then have w1: "started w1 =
      started w @
      [PWVCLIPasswordSDK_CMD cfg # pwv_args (PWVAppID cfg) (switch_safe cfg safe) a]"
    by (simp add: PWVCLICMD_world)
  show ?thesis
    by (simp add: handler_invokes [OF assms] run w1 log_Print_def split: sum.splits prod.splits)
qed

lemma handler_success_log:
  assumes "switch_safe cfg safe \<noteq> []" and "isValidAccount_name a"
    and "start_err ch = None" and "chosen ch = Done None"
  shows "logged (snd (handler cfg safe a ch w)) =
           logged w @
           [''Exec: '' @ fmt_s_strings (PWVCLIPasswordSDK_CMD cfg #
                           pwv_args (PWVAppID cfg) (switch_safe cfg safe) a),
            ''|'' @ pad 4 (fmt_d 0) @ '' |'' @ pad 14 (Duration_String (since_start ch)) @
            '' | SUCCESS | STDOUT: '' @ replicate (length (TrimSpace (out_buf ch))) CHR ''*'' @
            '', STDERR: '' @ TrimSpace (err_buf ch)]"
  using assms(3,4)
  by (simp add: handler_invokes [OF assms(1,2)] run_defs audit_line_def)

section \<open>The claims\<close>

subsection \<open>C1: spawn failures and wait errors\<close>

text \<open>
  C1 says that an invocation whose spawn failed, whose timer fired or whose wait returned
  an operating-system error is answered with status 424, the trimmed output as \<open>result\<close>
  and \<open>stderr\<close>, and a message naming the failure.  The code does so for the timer (see
  C2).  For the two other kinds it does not: when \<open>cmd.Start()\<close> has failed, or \<open>cmd.Wait()\<close>
  has returned an error that is not an exit error, and the \<open>select\<close> takes the channel
  case, the error built in that case is stored in the variable of the case, \<open>PWVCLICMD\<close>
  returns \<open>err = nil\<close> with \<open>exit_code = 0\<close>, and the handler answers with status 200 and
  \<open>error = null\<close>.
\<close>

theorem C1_wait_error_answered_200:
  assumes "switch_safe cfg safe \<noteq> []" and "isValidAccount_name a"
    and "chosen ch = Done received"
    and "start_err ch \<noteq> None \<or> (\<exists>m. received = Some (OtherError m)) \<or>
         (\<exists>st m. received = Some (ExitError st m) \<and> st \<le> 0)"
  shows "fst (handler cfg safe a ch w) =
           Inr (200, [(''result'', JString (TrimSpace (out_buf ch))),
                      (''error'', JNull),
                      (''stderr'', JString (TrimSpace (err_buf ch)))])"
  using assms(3,4)
  by (auto simp add: handler_invokes [OF assms(1,2)] classify_def json_of_error_def run_defs
      split: option.splits)

text \<open>The missing executable of the example: status 200, empty \<open>result\<close>, \<open>error = null\<close>.\<close>

theorem C1_spawn_failure_answered_200:
  "fst (handler cfg_example ''managed'' ''svc-account01'' child_not_started world_empty) =
     Inr (200, [(''result'', JString []), (''error'', JNull), (''stderr'', JString [])])"
proof -
  have safe: "switch_safe cfg_example ''managed'' \<noteq> []"
    by code_simp
  have name: "isValidAccount_name ''svc-account01''"
    by code_simp
  have taken: "chosen child_not_started = Done (Some (OtherError ''exec: not started''))"
    by (simp add: child_not_started_def)
  have failed: "start_err child_not_started \<noteq> None \<or>
      (\<exists>m. Some (OtherError ''exec: not started'') = Some (OtherError m)) \<or>
      (\<exists>st m. Some (OtherError ''exec: not started'') = Some (ExitError st m) \<and> st \<le> 0)"
    by (simp add: child_not_started_def)
  have out: "TrimSpace (out_buf child_not_started) = []"
    by code_simp
  have err: "TrimSpace (err_buf child_not_started) = []"
    by code_simp
  from C1_wait_error_answered_200 [OF safe name taken failed, of world_empty]
  show ?thesis
    by (simp add: out err)
qed

subsection \<open>C2: the timer fires first\<close>

text \<open>
  C2 says that every invocation whose timer fires first is answered with status 424 and
  the time-out as the failure, whatever the child has written so far, and that a failing
  kill does not change this.  The code does so whenever the child was started: the
  answer is 424 with the time-out message for every result of \<open>cmd.Process.Kill()\<close>
  (\<open>killed\<close> is arbitrary: \<open>nil\<close> or an error), and the error that \<open>PWVCLICMD\<close> returns is the
  time-out error.  It does not when \<open>cmd.Start()\<close> had failed: its result is dropped,
  \<open>cmd.Process\<close> is \<open>nil\<close>, the call of \<open>Kill\<close> in the timer case panics before the time-out
  error is assigned, and the request is answered with status 500 by gin's recovery.  The
  theorem gives the answer for every invocation that takes the timer case.
\<close>

theorem C2_timer_case_answer:
  assumes "switch_safe cfg safe \<noteq> []" and "isValidAccount_name a"
    and "chosen ch = TimeAfter killed"
  shows "fst (handler cfg safe a ch w) =
           (case start_err ch of
              None \<Rightarrow>
                Inr (424, [(''result'', JString (TrimSpace (out_buf ch))),
                           (''error'', JString ''The process did NOT run successfully process killed as timeout reached''),
                           (''stderr'', JString (TrimSpace (err_buf ch)))])
            | Some e \<Rightarrow> Inl NilPointerDereference)
         \<and> fst (serve cfg safe a ch w) =
           (case start_err ch of
              None \<Rightarrow>
                (424, Some [(''result'', JString (TrimSpace (out_buf ch))),
                            (''error'', JString ''The process did NOT run successfully process killed as timeout reached''),
                            (''stderr'', JString (TrimSpace (err_buf ch)))])
            | Some e \<Rightarrow> (500, None))
         \<and> map_sum id snd (fst (PWVCLICMD t cmd app s a ch w)) =
           (case start_err ch of
              None \<Rightarrow> Inr (Some ''process killed as timeout reached'')
            | Some e \<Rightarrow> Inl NilPointerDereference)"
  using assms(3)
  by (simp add: serve_def Recovery_def handler_invokes [OF assms(1,2)] classify_def run_defs
      split: option.splits)

text \<open>
  The run in which the executable is missing and the timer case is taken: a panic, and
  status 500 instead of 424.  The run in which the child was started and the kill fails
  after the child has written four bytes: status 424 with the time-out message.
\<close>

theorem C2_timer_case_examples:
  "fst (handler cfg_example ''managed'' ''svc-account01'' child_not_started_timer world_empty) =
     Inl NilPointerDereference
   \<and> fst (serve cfg_example ''managed'' ''svc-account01'' child_not_started_timer world_empty) =
     (500, None)
   \<and> fst (handler cfg_example ''managed'' ''svc-account01'' child_hangs world_empty) =
     Inr (424, [(''result'', JString ''s3cr''),
                (''error'', JString ''The process did NOT run successfully process killed as timeout reached''),
                (''stderr'', JString [])])"
proof -
  have safe: "switch_safe cfg_example ''managed'' \<noteq> []"
    by code_simp
  have name: "isValidAccount_name ''svc-account01''"
    by code_simp
  have missing: "start_err child_not_started_timer =
      Some ''fork/exec /opt/pwv/clipasswordsdk: no such file or directory''"
    by (simp add: child_not_started_timer_def)
  have timer_missing: "chosen child_not_started_timer = TimeAfter None"
    by (simp add: child_not_started_timer_def)
  have running: "start_err child_hangs = None"
    by (simp add: child_hangs_def)
  have timer_running: "chosen child_hangs = TimeAfter (Some ''os: process already finished'')"
    by (simp add: child_hangs_def)
  have out: "TrimSpace (out_buf child_hangs) = ''s3cr''"
    by code_simp
  have err: "TrimSpace (err_buf child_hangs) = []"
    by code_simp
  from C2_timer_case_answer [OF safe name timer_missing, of world_empty]
    C2_timer_case_answer [OF safe name timer_running, of world_empty]
  show ?thesis
    by (simp add: missing running out err)
qed

subsection \<open>C3: no request ends the service\<close>

text \<open>
  C3: for every request, every configuration and every behaviour of the child, either the
  handler returns and writes a response with status 200, 400 or 424, or it panics with a
  nil dereference (only when \<open>cmd.Start()\<close> had failed and the timer case is taken), and
  then gin's recovery answers with status 500.  In no case is a panic left unrecovered.
  The goroutine that \<open>PWVCLICMD\<close> starts only calls \<open>cmd.Wait()\<close>, which returns an error
  and does not panic when the process was not started.
\<close>

theorem C3_every_request_is_answered:
  "(\<exists>status_code result.
      fst (handler cfg safe a ch w) = Inr (status_code, result) \<and>
      status_code \<in> {200, 400, 424} \<and>
      fst (serve cfg safe a ch w) = (status_code, Some result))
   \<or> (fst (handler cfg safe a ch w) = Inl NilPointerDereference \<and>
       fst (serve cfg safe a ch w) = (500, None) \<and>
       (\<exists>e killed. start_err ch = Some e \<and> chosen ch = TimeAfter killed))"
proof (cases "switch_safe cfg safe = [] \<or> \<not> isValidAccount_name a")
  case True
  then show ?thesis
    by (simp add: serve_def Recovery_def handler_rejects)
next
  case False
  then have inv: "switch_safe cfg safe \<noteq> []" "isValidAccount_name a" by simp_all
  show ?thesis
    by (simp add: serve_def Recovery_def handler_invokes [OF inv] classify_def run_defs
        split: select_case.splits option.splits wait_error.splits)
qed

text \<open>The recovered panic, and a child that exits with status 1.\<close>

theorem C3_recovered_panic:
  "fst (serve cfg_example ''managed'' ''svc-account01'' child_not_started_timer world_empty)
     = (500, None)
   \<and> fst (serve cfg_example ''managed'' ''svc-account01'' child_exits_1 world_empty)
     = (424, Some [(''result'', JString ''s3cr3t''),
                   (''error'', JString ''According the return code [1] the process did NOT run successfully''),
                   (''stderr'', JString ''denied'')])"
proof -
  have panics:
    "fst (handler cfg_example ''managed'' ''svc-account01'' child_not_started_timer world_empty)
       = Inl NilPointerDereference"
    by code_simp
  have returns:
    "fst (handler cfg_example ''managed'' ''svc-account01'' child_exits_1 world_empty)
       = Inr (424, [(''result'', JString ''s3cr3t''),
                    (''error'', JString ''According the return code [1] the process did NOT run successfully''),
                    (''stderr'', JString ''denied'')])"
    by code_simp
  from C3_every_request_is_answered [of cfg_example "''managed''" "''svc-account01''"
      child_not_started_timer world_empty] panics
  have recovered:
    "fst (serve cfg_example ''managed'' ''svc-account01'' child_not_started_timer world_empty)
       = (500, None)"
    by simp
  from C3_every_request_is_answered [of cfg_example "''managed''" "''svc-account01''"
      child_exits_1 world_empty] returns
  have answered:
    "fst (serve cfg_example ''managed'' ''svc-account01'' child_exits_1 world_empty)
       = (424, Some [(''result'', JString ''s3cr3t''),
                   (''error'', JString ''According the return code [1] the process did NOT run successfully''),
                   (''stderr'', JString ''denied'')])"
    by simp
  from recovered answered show ?thesis
    by simp
qed

subsection \<open>C4: account names outside the class\<close>

text \<open>
  C4: an account name that is empty or holds a character outside \<open>[0-9a-zA-Z_-]\<close> is
  rejected with status 400, for every safe token (the valid ones included), and no
  command is started.  The message is the one about the account name when the safe
  resolves to a configured name, and the one about the safe otherwise.
\<close>

theorem C4_invalid_account_name_rejected:
  assumes "a = [] \<or> (\<exists>c \<in> set a. c \<notin> set spec_account_alphabet)"
  shows "(\<exists>msg. fst (handler cfg safe a ch w) =
                  Inr (400, [(''result'', JNull), (''error'', JString msg), (''stderr'', JNull)]) \<and>
                (if switch_safe cfg safe = [] then msg = msg_safe else msg = msg_account_name))
         \<and> started (snd (handler cfg safe a ch w)) = started w"
  using not_valid_account_name [OF assms]
  by (simp add: handler_rejects)

text \<open>The account name \<open>admin;rm -rf\<close> of the specification.\<close>

theorem C4_shell_metacharacters_rejected:
  "fst (handler cfg_example ''managed'' ''admin;rm -rf'' child_succeeds world_empty) =
     Inr (400, [(''result'', JNull), (''error'', JString ''Please specify a valid account_name''),
                (''stderr'', JNull)])
   \<and> started (snd (handler cfg_example ''managed'' ''admin;rm -rf'' child_succeeds world_empty)) = []"
proof -
  have outside: "''admin;rm -rf'' = [] \<or>
      (\<exists>c \<in> set ''admin;rm -rf''. c \<notin> set spec_account_alphabet)"
    by (simp add: spec_account_alphabet_def)
  have safe: "switch_safe cfg_example ''managed'' \<noteq> []"
    by code_simp
  have before: "started world_empty = []"
    by (simp add: world_empty_def)
  from C4_invalid_account_name_rejected [OF outside, of cfg_example "''managed''"
      child_succeeds world_empty]
  show ?thesis
    by (auto simp add: safe before msg_account_name_def)
qed

subsection \<open>C5: safe tokens\<close>

text \<open>
  C5: a safe token other than \<open>managed\<close> and \<open>unmanaged\<close> is rejected with status 400 and
  no command is started; a valid token whose configured safe name is empty gets the very
  same response.
\<close>

theorem C5_invalid_safe_rejected:
  assumes "safe \<notin> {''managed'', ''unmanaged''} \<or>
           (safe = ''managed'' \<and> PWVManagedSafe cfg = []) \<or>
           (safe = ''unmanaged'' \<and> PWVUnmanagedSafe cfg = [])"
  shows "fst (handler cfg safe a ch w) =
           Inr (400, [(''result'', JNull), (''error'', JString msg_safe), (''stderr'', JNull)])
         \<and> started (snd (handler cfg safe a ch w)) = started w"
proof -
  from assms have "switch_safe cfg safe = []"
    by (auto simp add: switch_safe_def)
  then show ?thesis
    by (simp add: handler_rejects)
qed

text \<open>The token \<open>root\<close>, and the token \<open>managed\<close> with no managed safe configured.\<close>

theorem C5_unknown_and_unconfigured_safe:
  "fst (handler cfg_example ''root'' ''svc-account01'' child_succeeds world_empty) =
     Inr (400, [(''result'', JNull), (''error'', JString msg_safe), (''stderr'', JNull)])
   \<and> fst (handler (cfg_example\<lparr>PWVManagedSafe := []\<rparr>) ''managed'' ''svc-account01''
           child_succeeds world_empty) =
     Inr (400, [(''result'', JNull), (''error'', JString msg_safe), (''stderr'', JNull)])
   \<and> started (snd (handler cfg_example ''root'' ''svc-account01'' child_succeeds world_empty)) = []
   \<and> started (snd (handler (cfg_example\<lparr>PWVManagedSafe := []\<rparr>) ''managed''
                      ''svc-account01'' child_succeeds world_empty)) = []"
proof -
  have unknown: "''root'' \<notin> {''managed'', ''unmanaged''} \<or>
      (''root'' = ''managed'' \<and> PWVManagedSafe cfg_example = []) \<or>
      (''root'' = ''unmanaged'' \<and> PWVUnmanagedSafe cfg_example = [])"
    by simp
  have unconfigured: "''managed'' \<notin> {''managed'', ''unmanaged''} \<or>
      (''managed'' = ''managed'' \<and> PWVManagedSafe (cfg_example\<lparr>PWVManagedSafe := []\<rparr>) = []) \<or>
      (''managed'' = ''unmanaged'' \<and>
       PWVUnmanagedSafe (cfg_example\<lparr>PWVManagedSafe := []\<rparr>) = [])"
    by simp
  have before: "started world_empty = []"
    by (simp add: world_empty_def)
  from C5_invalid_safe_rejected [OF unknown, of "''svc-account01''" child_succeeds world_empty]
    C5_invalid_safe_rejected [OF unconfigured, of "''svc-account01''" child_succeeds world_empty]
  show ?thesis
    by (simp add: before)
qed

subsection \<open>C6: the argument vector\<close>

text \<open>
  C6: for every validated request the command that is started has, after the configured
  executable, exactly the arguments \<open>GetPassword\<close>, \<open>-p\<close>, \<open>AppDescs.AppID=<appId>\<close>, \<open>-p\<close>,
  \<open>Query=Safe=<safeName>;Folder=root;Object=<accountName>\<close>, \<open>-o\<close>, \<open>Password\<close>, in this order.
\<close>

theorem C6_argument_vector:
  assumes "switch_safe cfg safe \<noteq> []" and "isValidAccount_name a"
  shows "started (snd (handler cfg safe a ch w)) =
           started w @
           [[PWVCLIPasswordSDK_CMD cfg,
             ''GetPassword'',
             ''-p'', ''AppDescs.AppID='' @ PWVAppID cfg,
             ''-p'', ''Query=Safe='' @ switch_safe cfg safe @ '';Folder=root;Object='' @ a,
             ''-o'', ''Password'']]"
  by (simp add: handler_started [OF assms] pwv_args_def)

text \<open>The argument vector for the unmanaged safe of the example configuration.\<close>

theorem C6_argument_vector_example:
  "started (snd (handler cfg_example ''unmanaged'' ''svc-account01'' child_succeeds world_empty)) =
     [[''/opt/pwv/clipasswordsdk'', ''GetPassword'', ''-p'', ''AppDescs.AppID=app1'', ''-p'',
       ''Query=Safe=SafeU;Folder=root;Object=svc-account01'', ''-o'', ''Password'']]"
proof -
  have safe: "switch_safe cfg_example ''unmanaged'' = ''SafeU''"
    by code_simp
  have name: "isValidAccount_name ''svc-account01''"
    by code_simp
  have cfg: "PWVCLIPasswordSDK_CMD cfg_example = ''/opt/pwv/clipasswordsdk''"
    "PWVAppID cfg_example = ''app1''"
    by (simp_all add: cfg_example_def)
  have before: "started world_empty = []"
    by (simp add: world_empty_def)
  from safe have configured: "switch_safe cfg_example ''unmanaged'' \<noteq> []"
    by simp
  from C6_argument_vector [OF configured name, of child_succeeds world_empty]
  show ?thesis
    by (simp add: safe cfg before)
qed

subsection \<open>C7: success\<close>

text \<open>
  C7: a result of \<open>PWVCLICMD\<close> with \<open>ok = true\<close> and \<open>exit_code = 0\<close> is classified as status
  200, with the trimmed standard output as \<open>result\<close>, \<open>null\<close> as \<open>error\<close> and the trimmed
  standard error as \<open>stderr\<close>.
\<close>

theorem C7_success_classifies_200:
  assumes "fst (PWVCLICMD t cmd app s a ch w) = Inr (r, err)" and "ok r" and "exit_code r = 0"
  shows "classify r err =
           (200, [(''result'', JString (TrimSpace (out_buf ch))),
                  (''error'', JNull),
                  (''stderr'', JString (TrimSpace (err_buf ch)))])"
  using assms
  by (auto simp add: run_defs classify_def json_of_error_def
      split: select_case.splits option.splits wait_error.splits)

text \<open>The example run that succeeds.\<close>

theorem C7_success_example:
  "fst (PWVCLICMD 20000 ''/opt/pwv/clipasswordsdk'' ''app1'' ''SafeM'' ''svc-account01''
          child_succeeds world_empty) =
     Inr (\<lparr>ok = True, stdout = ''s3cr3t'', stderr = [], exit_code = 0, elapsed = 1500000\<rparr>, None)
   \<and> classify \<lparr>ok = True, stdout = ''s3cr3t'', stderr = [], exit_code = 0, elapsed = 1500000\<rparr>
        None =
       (200, [(''result'', JString ''s3cr3t''), (''error'', JNull), (''stderr'', JString [])])"
proof -
  have run: "fst (PWVCLICMD 20000 ''/opt/pwv/clipasswordsdk'' ''app1'' ''SafeM''
                    ''svc-account01'' child_succeeds world_empty) =
     Inr (\<lparr>ok = True, stdout = ''s3cr3t'', stderr = [], exit_code = 0, elapsed = 1500000\<rparr>, None)"
    by code_simp
  have out: "TrimSpace (out_buf child_succeeds) = ''s3cr3t''"
    by code_simp
  have err: "TrimSpace (err_buf child_succeeds) = []"
    by code_simp
  from C7_success_classifies_200 [OF run] run show ?thesis
    by (simp add: out err)
qed

subsection \<open>C8: the invariant of a result\<close>

text \<open>
  C8: for every result that \<open>PWVCLICMD\<close> returns, \<open>ok = true\<close> implies that the returned
  error is \<open>nil\<close> and that \<open>exit_code = 0\<close>; when the timer case was taken (the kill failing
  or not), and when \<open>cmd.Start()\<close> had failed, \<open>ok\<close> is \<open>false\<close>.
\<close>

theorem C8_result_invariant:
  assumes "fst (PWVCLICMD t cmd app s a ch w) = Inr (r, err)"
  shows "(ok r \<longrightarrow> err = None \<and> exit_code r = 0) \<and>
         ((\<exists>killed. chosen ch = TimeAfter killed) \<longrightarrow> \<not> ok r) \<and>
         (start_err ch \<noteq> None \<longrightarrow> \<not> ok r)"
  using assms
  by (auto simp add: run_defs split: select_case.splits option.splits wait_error.splits)

text \<open>A run that succeeds, a run that times out, and a run that was never started.\<close>

theorem C8_result_invariant_examples:
  "fst (PWVCLICMD 20000 ''/opt/pwv/clipasswordsdk'' ''app1'' ''SafeM'' ''svc-account01''
          child_succeeds world_empty) =
     Inr (\<lparr>ok = True, stdout = ''s3cr3t'', stderr = [], exit_code = 0, elapsed = 1500000\<rparr>, None)
   \<and> fst (PWVCLICMD 20000 ''/opt/pwv/clipasswordsdk'' ''app1'' ''SafeM'' ''svc-account01''
          child_hangs world_empty) =
     Inr (\<lparr>ok = False, stdout = ''s3cr'', stderr = [], exit_code = 0, elapsed = 20000123456\<rparr>,
          Some ''process killed as timeout reached'')
   \<and> fst (PWVCLICMD 20000 ''/opt/pwv/clipasswordsdk'' ''app1'' ''SafeM'' ''svc-account01''
          child_not_started world_empty) =
     Inr (\<lparr>ok = False, stdout = [], stderr = [], exit_code = 0, elapsed = 250000\<rparr>, None)"
proof -
  have run1: "fst (PWVCLICMD 20000 ''/opt/pwv/clipasswordsdk'' ''app1'' ''SafeM''
                    ''svc-account01'' child_succeeds world_empty) =
     Inr (\<lparr>ok = True, stdout = ''s3cr3t'', stderr = [], exit_code = 0, elapsed = 1500000\<rparr>, None)"
    by code_simp
  have run2: "fst (PWVCLICMD 20000 ''/opt/pwv/clipasswordsdk'' ''app1'' ''SafeM''
                    ''svc-account01'' child_hangs world_empty) =
     Inr (\<lparr>ok = False, stdout = ''s3cr'', stderr = [], exit_code = 0, elapsed = 20000123456\<rparr>,
          Some ''process killed as timeout reached'')"
    by code_simp
  have run3: "fst (PWVCLICMD 20000 ''/opt/pwv/clipasswordsdk'' ''app1'' ''SafeM''
                    ''svc-account01'' child_not_started world_empty) =
     Inr (\<lparr>ok = False, stdout = [], stderr = [], exit_code = 0, elapsed = 250000\<rparr>, None)"
    by code_simp
  from C8_result_invariant [OF run1] C8_result_invariant [OF run2]
    C8_result_invariant [OF run3] run1 run2 run3
  show ?thesis by simp
qed

subsection \<open>C9: the audit line\<close>

text \<open>
  C9 says that the standard output never appears in a log line.  The handler replaces it
  by asterisks only in the line for \<open>r.ok = true\<close>; the line for \<open>r.ok = false\<close> prints
  \<open>r.stdout\<close> as it is.  Here the child prints \<open>s3cr3t\<close> and exits with status 1, and the
  audit line holds \<open>STDOUT: s3cr3t\<close>.
\<close>

theorem C9_failed_line_shows_stdout:
  "fst (PWVCLICMD 20000 ''/opt/pwv/clipasswordsdk'' ''app1'' ''SafeM'' ''svc-account01''
          child_exits_1 world_empty) =
     Inr (\<lparr>ok = False, stdout = ''s3cr3t'', stderr = ''denied'', exit_code = 1,
           elapsed = 1500000\<rparr>, None)
   \<and> logged (snd (handler cfg_example ''managed'' ''svc-account01'' child_exits_1 world_empty)) =
     [''Exec: [/opt/pwv/clipasswordsdk GetPassword -p AppDescs.AppID=app1 -p Query=Safe=SafeM;Folder=root;Object=svc-account01 -o Password]'',
      ''|   1 |         1.5ms | FAILED  | STDOUT: s3cr3t, STDERR: denied, ERROR: %!s(<nil>)'']"
  by code_simp

text \<open>
  C9 as amended: every request that the handler answers adds two lines to the log, of
  which the second and last is the audit line, with the exit code, the elapsed time and
  \<open>SUCCESS\<close> or \<open>FAILED\<close>, for the result of \<open>PWVCLICMD\<close> (the zero result when the request
  was rejected).  With \<open>r.ok = true\<close> the line shows as many asterisks as the trimmed
  standard output has bytes; with \<open>r.ok = false\<close> it shows the trimmed standard output
  itself.  Two successful runs that differ only in a standard output of the same trimmed
  length leave the same log.
\<close>

theorem C9_audit_line_redacts_on_success:
  assumes "fst (handler cfg safe a ch w) = Inr resp"
  shows "(\<exists>first r err.
            logged (snd (handler cfg safe a ch w)) =
              logged w @
              [first,
               ''|'' @ pad 4 (fmt_d (exit_code r)) @ '' |'' @
               pad 14 (Duration_String (elapsed r)) @
               (if ok r then
                  '' | SUCCESS | STDOUT: '' @ replicate (length (stdout r)) CHR ''*'' @
                  '', STDERR: '' @ stderr r
                else
                  '' | FAILED  | STDOUT: '' @ stdout r @ '', STDERR: '' @ stderr r @
                  '', ERROR: '' @ fmt_s_error err)] \<and>
            (if switch_safe cfg safe = [] \<or> \<not> isValidAccount_name a
             then r = Result_zero \<and> err = None
             else fst (PWVCLICMD (PWVCLIPasswordSDK_CMD_timeout cfg) (PWVCLIPasswordSDK_CMD cfg)
                         (PWVAppID cfg) (switch_safe cfg safe) a ch w) = Inr (r, err)))
         \<and> (\<forall>ch' :: child. start_err ch = None \<and> chosen ch = Done None \<and>
                  start_err ch' = None \<and> chosen ch' = Done None \<and>
                  switch_safe cfg safe \<noteq> [] \<and> isValidAccount_name a \<and>
                  err_buf ch' = err_buf ch \<and> since_start ch' = since_start ch \<and>
                  length (TrimSpace (out_buf ch')) = length (TrimSpace (out_buf ch))
                \<longrightarrow> logged (snd (handler cfg safe a ch' w)) =
                    logged (snd (handler cfg safe a ch w)))"
proof (intro conjI allI impI)
  show "\<exists>first r err.
            logged (snd (handler cfg safe a ch w)) =
              logged w @
              [first,
               ''|'' @ pad 4 (fmt_d (exit_code r)) @ '' |'' @
               pad 14 (Duration_String (elapsed r)) @
               (if ok r then
                  '' | SUCCESS | STDOUT: '' @ replicate (length (stdout r)) CHR ''*'' @
                  '', STDERR: '' @ stderr r
                else
                  '' | FAILED  | STDOUT: '' @ stdout r @ '', STDERR: '' @ stderr r @
                  '', ERROR: '' @ fmt_s_error err)] \<and>
            (if switch_safe cfg safe = [] \<or> \<not> isValidAccount_name a
             then r = Result_zero \<and> err = None
             else fst (PWVCLICMD (PWVCLIPasswordSDK_CMD_timeout cfg) (PWVCLIPasswordSDK_CMD cfg)
                         (PWVAppID cfg) (switch_safe cfg safe) a ch w) = Inr (r, err))"
  proof (cases "switch_safe cfg safe = [] \<or> \<not> isValidAccount_name a")
    case True
    then show ?thesis
      by (simp add: handler_rejects audit_line_def Result_zero_def)
  next
    case False
    then have inv: "switch_safe cfg safe \<noteq> []" "isValidAccount_name a" by simp_all
    obtain x w1 where run:
      "PWVCLICMD (PWVCLIPasswordSDK_CMD_timeout cfg) (PWVCLIPasswordSDK_CMD cfg)
         (PWVAppID cfg) (switch_safe cfg safe) a ch w = (x, w1)"
      by (cases "PWVCLICMD (PWVCLIPasswordSDK_CMD_timeout cfg) (PWVCLIPasswordSDK_CMD cfg)
         (PWVAppID cfg) (switch_safe cfg safe) a ch w")
    from assms obtain r err where x: "x = Inr (r, err)"
      by (cases x) (auto simp add: handler_invokes [OF inv] run)
    have "w1 = snd (PWVCLICMD (PWVCLIPasswordSDK_CMD_timeout cfg) (PWVCLIPasswordSDK_CMD cfg)
         (PWVAppID cfg) (switch_safe cfg safe) a ch w)"
      by (simp add: run)
    then have w1: "logged w1 = logged w @ [''Exec: '' @ fmt_s_strings (PWVCLIPasswordSDK_CMD cfg #
                           pwv_args (PWVAppID cfg) (switch_safe cfg safe) a)]"
      by (simp add: PWVCLICMD_world)
    show ?thesis
      using False
      by (simp add: handler_invokes [OF inv] run x w1 log_Print_def audit_line_def)
  qed
next
  fix ch' :: child
  assume h: "start_err ch = None \<and> chosen ch = Done None \<and>
             start_err ch' = None \<and> chosen ch' = Done None \<and>
             switch_safe cfg safe \<noteq> [] \<and> isValidAccount_name a \<and>
             err_buf ch' = err_buf ch \<and> since_start ch' = since_start ch \<and>
             length (TrimSpace (out_buf ch')) = length (TrimSpace (out_buf ch))"
  then show "logged (snd (handler cfg safe a ch' w)) = logged (snd (handler cfg safe a ch w))"
    by (simp add: handler_success_log)
qed

text \<open>The log of the successful example run, and the log of a rejected request.\<close>

theorem C9_success_line_example:
  "logged (snd (handler cfg_example ''managed'' ''svc-account01'' child_succeeds world_empty)) =
     [''Exec: [/opt/pwv/clipasswordsdk GetPassword -p AppDescs.AppID=app1 -p Query=Safe=SafeM;Folder=root;Object=svc-account01 -o Password]'',
      ''|   0 |         1.5ms | SUCCESS | STDOUT: ******, STDERR: '']
   \<and> logged (snd (handler cfg_example ''root'' ''svc-account01'' child_succeeds world_empty)) =
     [msg_safe, ''|   0 |            0s | FAILED  | STDOUT: , STDERR: , ERROR: %!s(<nil>)'']"
proof -
  have r1: "fst (handler cfg_example ''managed'' ''svc-account01'' child_succeeds world_empty) =
      Inr (200, [(''result'', JString ''s3cr3t''), (''error'', JNull), (''stderr'', JString [])])"
    by code_simp
  have r2: "fst (handler cfg_example ''root'' ''svc-account01'' child_succeeds world_empty) =
      Inr (400, [(''result'', JNull), (''error'', JString msg_safe), (''stderr'', JNull)])"
    by code_simp
  have l1: "logged (snd (handler cfg_example ''managed'' ''svc-account01'' child_succeeds world_empty)) =
     [''Exec: [/opt/pwv/clipasswordsdk GetPassword -p AppDescs.AppID=app1 -p Query=Safe=SafeM;Folder=root;Object=svc-account01 -o Password]'',
      ''|   0 |         1.5ms | SUCCESS | STDOUT: ******, STDERR: '']"
    by code_simp
  have l2: "logged (snd (handler cfg_example ''root'' ''svc-account01'' child_succeeds world_empty)) =
     [msg_safe, ''|   0 |            0s | FAILED  | STDOUT: , STDERR: , ERROR: %!s(<nil>)'']"
    by code_simp
  from C9_audit_line_redacts_on_success [OF r1] C9_audit_line_redacts_on_success [OF r2] l1 l2
  show ?thesis
    by simp
qed

subsection \<open>C10: where the account name goes\<close>

text \<open>
  C10 says that the argument vector has seven tokens, the executable and six arguments.
  It has eight: the executable and the seven arguments of C6.  For the valid account name
  \<open>-p\<close> the third token is moreover equal to the account name, being the fixed \<open>-p\<close>.
\<close>

theorem C10_eight_tokens:
  "isValidAccount_name ''-p''
   \<and> started (snd (handler cfg_example ''managed'' ''-p'' child_succeeds world_empty)) =
     [[''/opt/pwv/clipasswordsdk'', ''GetPassword'', ''-p'', ''AppDescs.AppID=app1'', ''-p'',
       ''Query=Safe=SafeM;Folder=root;Object=-p'', ''-o'', ''Password'']]
   \<and> length (hd (started (snd (handler cfg_example ''managed'' ''-p'' child_succeeds
                                 world_empty)))) \<noteq> 7
   \<and> hd (started (snd (handler cfg_example ''managed'' ''-p'' child_succeeds world_empty))) ! 2
       = ''-p''"
  by code_simp

text \<open>
  C10 as amended: for every validated request the argument vector has exactly eight
  tokens; the account name is the end of the sixth, the \<open>Query=...\<close> token; the seven
  other tokens are fixed by the configuration and do not depend on the account name.
\<close>

theorem C10_account_name_only_in_query:
  assumes "switch_safe cfg safe \<noteq> []" and "isValidAccount_name a"
  shows "\<exists>argv. started (snd (handler cfg safe a ch w)) = started w @ [argv] \<and>
                length argv = 8 \<and>
                argv ! 5 = ''Query=Safe='' @ switch_safe cfg safe @ '';Folder=root;Object='' @ a \<and>
                argv[5 := []] =
                  [PWVCLIPasswordSDK_CMD cfg, ''GetPassword'', ''-p'',
                   ''AppDescs.AppID='' @ PWVAppID cfg, ''-p'', [], ''-o'', ''Password'']"
  by (simp add: handler_started [OF assms] pwv_args_def)

text \<open>The account name \<open>--help\<close>.\<close>

theorem C10_hyphen_name_example:
  "started (snd (handler cfg_example ''managed'' ''--help'' child_succeeds world_empty)) =
     [[''/opt/pwv/clipasswordsdk'', ''GetPassword'', ''-p'', ''AppDescs.AppID=app1'', ''-p'',
       ''Query=Safe=SafeM;Folder=root;Object=--help'', ''-o'', ''Password'']]"
proof -
  have h1: "switch_safe cfg_example ''managed'' \<noteq> []" by code_simp
  have h2: "isValidAccount_name ''--help''" by code_simp
  have e: "started (snd (handler cfg_example ''managed'' ''--help'' child_succeeds world_empty)) =
     [[''/opt/pwv/clipasswordsdk'', ''GetPassword'', ''-p'', ''AppDescs.AppID=app1'', ''-p'',
       ''Query=Safe=SafeM;Folder=root;Object=--help'', ''-o'', ''Password'']]"
    by code_simp
  from C10_account_name_only_in_query [OF h1 h2, of child_succeeds world_empty] e
  show ?thesis by simp
qed

end
